theory Spec2Isabelle
  imports Complex_Main
begin

section \<open>Radarr-Raycast: instance configuration, selection store, client and formatters\<close>

text \<open>
  A shallow embedding of the TypeScript sources \<^verbatim>\<open>config.ts\<close> (static and dynamic
  variant), \<^verbatim>\<open>instance-manager.ts\<close>, \<^verbatim>\<open>hooks/useRadarrAPI.ts\<close>, and of the
  formatters of the queue and missing-movies views.

  Conventions. A JavaScript string is a \<^typ>\<open>string\<close>; a string is truthy when it is not
  empty; an optional field (\<^verbatim>\<open>field?: T\<close>) is a \<^typ>\<open>'a option\<close>, \<open>None\<close> standing for
  \<^verbatim>\<open>undefined\<close>. \<^verbatim>\<open>throw new Error(msg)\<close> is the value \<open>Inl (Error msg)\<close> of a sum
  type, a normal return is \<open>Inr\<close>; an \<^verbatim>\<open>async\<close> function is modelled the same way, a
  rejected promise being \<open>Inl\<close>. Functions of the JavaScript runtime and of the host
  (\<^verbatim>\<open>JSON.parse\<close>, \<^verbatim>\<open>JSON.stringify\<close>, \<^verbatim>\<open>new Date\<close>, \<^verbatim>\<open>new URL\<close>, \<^verbatim>\<open>fetch\<close>)
  are parameters of the functions that call them. Console output is not modelled.
\<close>

subsection \<open>Data model\<close>

datatype error = Error (message: string)

record RadarrInstance =
  name :: string
  url :: string
  apiKey :: string
  isDefault :: bool

text \<open>The \<^verbatim>\<open>Preferences\<close> interface of the static variant of \<^verbatim>\<open>config.ts\<close>.\<close>

record Preferences =
  primaryInstanceName :: string
  primaryInstanceUrl :: string
  primaryInstanceApiKey :: string
  enableSecondaryInstance :: "bool option"
  secondaryInstanceName :: "string option"
  secondaryInstanceUrl :: "string option"
  secondaryInstanceApiKey :: "string option"

subsection \<open>Strings of the runtime\<close>

text \<open>\<^verbatim>\<open>s.replace(/\/$/, "")\<close>: the pattern matches one slash at the very end of the
  input (no \<^verbatim>\<open>m\<close> or \<^verbatim>\<open>g\<close> flag), and the match is replaced by the empty string.\<close>

definition strip_trailing_slash :: "string \<Rightarrow> string" where
  "strip_trailing_slash s = (if s \<noteq> [] \<and> last s = CHR ''/'' then butlast s else s)"



text \<open>Decimal rendering of an integer, as a template literal renders an integral number.\<close>

fun digits_of :: "nat \<Rightarrow> string" where
  "digits_of n = (if n < 10 then [''0123456789'' ! n]
                  else digits_of (n div 10) @ [''0123456789'' ! (n mod 10)])"

definition show_int :: "int \<Rightarrow> string" where
  "show_int i = (if i < 0 then CHR ''-'' # digits_of (nat (- i)) else digits_of (nat i))"

subsection \<open>Instance configuration resolver, static variant (\<^verbatim>\<open>config.ts\<close>)\<close>

definition getRadarrInstances :: "Preferences \<Rightarrow> error + RadarrInstance list" where
  "getRadarrInstances preferences =
    (if primaryInstanceName preferences = [] \<or> primaryInstanceUrl preferences = []
        \<or> primaryInstanceApiKey preferences = []
     then Inl (Error ''Primary Radarr instance configuration is incomplete'')
     else
       let instances =
         [\<lparr>name = primaryInstanceName preferences,
           url = strip_trailing_slash (primaryInstanceUrl preferences),
           apiKey = primaryInstanceApiKey preferences,
           isDefault = True\<rparr>]
       in
       (case (enableSecondaryInstance preferences, secondaryInstanceName preferences,
              secondaryInstanceUrl preferences, secondaryInstanceApiKey preferences) of
          (Some True, Some sn, Some su, Some sk) \<Rightarrow>
            if sn \<noteq> [] \<and> su \<noteq> [] \<and> sk \<noteq> []
            then Inr (instances @
                   [\<lparr>name = sn, url = strip_trailing_slash su, apiKey = sk, isDefault = False\<rparr>])
            else Inr instances
        | _ \<Rightarrow> Inr instances))"

text \<open>The body of \<^verbatim>\<open>getDefaultRadarrInstance\<close>, the same text in both variants of
  \<^verbatim>\<open>config.ts\<close>, as a function of the outcome of its first line
  \<^verbatim>\<open>const instances = getRadarrInstances()\<close>: an exception of that call propagates.\<close>

definition getDefaultRadarrInstance_of ::
  "error + RadarrInstance list \<Rightarrow> error + RadarrInstance" where
  "getDefaultRadarrInstance_of resolved =
    (case resolved of
       Inl e \<Rightarrow> Inl e
     | Inr instances \<Rightarrow>
        (case find isDefault instances of
           Some defaultInstance \<Rightarrow> Inr defaultInstance
         | None \<Rightarrow>
            (case instances of
               first # _ \<Rightarrow> Inr first
             | [] \<Rightarrow> Inl (Error ''No Radarr instances configured''))))"

definition getDefaultRadarrInstance :: "Preferences \<Rightarrow> error + RadarrInstance" where
  "getDefaultRadarrInstance preferences = getDefaultRadarrInstance_of (getRadarrInstances preferences)"


subsection \<open>Instance configuration resolver, dynamic variant\<close>

text \<open>The variant whose preferences hold one JSON text \<^verbatim>\<open>instances\<close>. Its
  \<^verbatim>\<open>JSON.parse\<close> is a parameter: it throws (\<open>Inl\<close>), or yields a value that is not an
  array, or an array whose elements are read through the interface
  \<^verbatim>\<open>RawRadarrInstance\<close>, each field present or not.\<close>

record RawRadarrInstance =
  raw_name :: "string option"
  raw_url :: "string option"
  raw_apiKey :: "string option"
  raw_isDefault :: "bool option"

datatype parsed_instances = NotAnArray | Array "RawRadarrInstance list"

text \<open>\<^verbatim>\<open>instances.map((instance, index) => ...)\<close>: the callback throws at the first element
  with a missing or empty field.\<close>

fun map_instances :: "nat \<Rightarrow> RawRadarrInstance list \<Rightarrow> error + RadarrInstance list" where
  "map_instances index [] = Inr []"
| "map_instances index (instance # rest) =
    (case (raw_name instance, raw_url instance, raw_apiKey instance) of
       (Some n, Some u, Some k) \<Rightarrow>
         if n = [] \<or> u = [] \<or> k = []
         then Inl (Error (''Instance '' @ show_int (int index + 1)
                            @ '' is missing required fields (name, url, apiKey)''))
         else (case map_instances (index + 1) rest of
                 Inl e \<Rightarrow> Inl e
               | Inr mapped \<Rightarrow>
                   Inr (\<lparr>name = n, url = strip_trailing_slash u, apiKey = k,
                         isDefault = (raw_isDefault instance = Some True)\<rparr> # mapped))
     | _ \<Rightarrow> Inl (Error (''Instance '' @ show_int (int index + 1)
                            @ '' is missing required fields (name, url, apiKey)'')))"

definition getRadarrInstances_dyn ::
  "(string \<Rightarrow> error + parsed_instances) \<Rightarrow> string \<Rightarrow> error + RadarrInstance list" where
  "getRadarrInstances_dyn JSON_parse instances_pref =
    (case (case JSON_parse instances_pref of
             Inl e \<Rightarrow> Inl e
           | Inr NotAnArray \<Rightarrow> Inl (Error ''Instances configuration must be an array'')
           | Inr (Array instances) \<Rightarrow> map_instances 0 instances) of
       Inl e \<Rightarrow> Inl (Error (''Invalid instances configuration: '' @ message e))
     | Inr instances \<Rightarrow> Inr instances)"

definition getDefaultRadarrInstance_dyn ::
  "(string \<Rightarrow> error + parsed_instances) \<Rightarrow> string \<Rightarrow> error + RadarrInstance" where
  "getDefaultRadarrInstance_dyn JSON_parse instances_pref =
    getDefaultRadarrInstance_of (getRadarrInstances_dyn JSON_parse instances_pref)"

subsection \<open>Instance selection store (\<^verbatim>\<open>instance-manager.ts\<close>)\<close>

text \<open>\<^verbatim>\<open>LocalStorage\<close> is a map from keys to stored strings. \<^verbatim>\<open>JSON.stringify\<close> and
  \<^verbatim>\<open>JSON.parse\<close> are parameters; the parser yields \<open>None\<close> when \<^verbatim>\<open>JSON.parse\<close> throws,
  and otherwise the value under the type \<^verbatim>\<open>RadarrInstance\<close> that the source gives it.
  The argument \<open>resolved\<close> is the outcome of the call \<^verbatim>\<open>getRadarrInstances()\<close> on the
  preferences of the moment.\<close>

type_synonym LocalStorage = "string \<rightharpoonup> string"

definition SELECTED_INSTANCE_KEY :: string where
  "SELECTED_INSTANCE_KEY = ''selectedRadarrInstance''"

text \<open>Modelled from the spec: \<^verbatim>\<open>getActiveRadarrInstance\<close> is imported from a variant of
  \<^verbatim>\<open>config.ts\<close> that is not among the sources. The spec (4.2, step 5) gives the
  fall-through of \<^verbatim>\<open>getCurrent\<close> as \<^verbatim>\<open>resolve().getDefault()\<close>.\<close>

definition getActiveRadarrInstance :: "error + RadarrInstance list \<Rightarrow> error + RadarrInstance" where
  "getActiveRadarrInstance resolved = getDefaultRadarrInstance_of resolved"

definition getCurrentInstance ::
  "(string \<Rightarrow> RadarrInstance option) \<Rightarrow> error + RadarrInstance list \<Rightarrow> LocalStorage
     \<Rightarrow> (error + RadarrInstance) \<times> LocalStorage" where
  "getCurrentInstance JSON_parse resolved storage =
    (case storage SELECTED_INSTANCE_KEY of
       None \<Rightarrow> (getActiveRadarrInstance resolved, storage)
     | Some selectedInstanceJson \<Rightarrow>
        if selectedInstanceJson = [] then (getActiveRadarrInstance resolved, storage)
        else
          (case JSON_parse selectedInstanceJson of
             None \<Rightarrow> (getActiveRadarrInstance resolved, storage(SELECTED_INSTANCE_KEY := None))
           | Some selectedInstance \<Rightarrow>
              (case resolved of
                 Inl e \<Rightarrow>
                   (getActiveRadarrInstance resolved, storage(SELECTED_INSTANCE_KEY := None))
               | Inr availableInstances \<Rightarrow>
                   if list_ex (\<lambda>instance. name instance = name selectedInstance
                                 \<and> url instance = url selectedInstance) availableInstances
                   then (Inr selectedInstance, storage)
                   else (getActiveRadarrInstance resolved,
                         storage(SELECTED_INSTANCE_KEY := None)))))"

definition setCurrentInstance ::
  "(RadarrInstance \<Rightarrow> string) \<Rightarrow> RadarrInstance \<Rightarrow> LocalStorage \<Rightarrow> LocalStorage" where
  "setCurrentInstance JSON_stringify instance storage =
    storage(SELECTED_INSTANCE_KEY \<mapsto> JSON_stringify instance)"

definition hasInstanceOverride :: "LocalStorage \<Rightarrow> bool" where
  "hasInstanceOverride storage =
    (case storage SELECTED_INSTANCE_KEY of None \<Rightarrow> False | Some overridden \<Rightarrow> overridden \<noteq> [])"

subsection \<open>View-model formatters\<close>

text \<open>Modelled from the spec: \<^verbatim>\<open>types.ts\<close> is not among the sources. A lookup result has
  the descriptive fields that \<^verbatim>\<open>addMovie\<close> reads; a \<^verbatim>\<open>Movie\<close> has them too (spec, 3:
  same descriptive fields, plus the remote identity) and the fields the views read.
  Nested values that the code only forwards (\<^verbatim>\<open>images\<close>, \<^verbatim>\<open>ratings\<close>) are kept as
  their JSON text.\<close>

record MovieLookup =
  title :: string
  originalTitle :: string
  sortTitle :: string
  status :: string
  overview :: "string option"
  inCinemas :: "string option"
  images :: string
  website :: "string option"
  year :: int
  runtime :: int
  imdbId :: "string option"
  tmdbId :: int
  genres :: "string list"
  ratings :: string

record Movie = MovieLookup +
  movie_id :: int
  monitored :: bool
  hasFile :: bool
  digitalRelease :: "string option"
  physicalRelease :: "string option"

record QueueItem =
  item_size :: int
  sizeleft :: int
  timeleft :: "string option"
  estimatedCompletionTime :: "string option"

text \<open>\<^verbatim>\<open>a || b\<close> on an optional string \<open>a\<close>: \<open>a\<close> when it is truthy, else \<open>b\<close>.\<close>

definition truthy :: "string option \<Rightarrow> bool" where
  "truthy a = (case a of None \<Rightarrow> False | Some s \<Rightarrow> s \<noteq> [])"

definition or_else :: "string option \<Rightarrow> string \<Rightarrow> string" where
  "or_else a b = (case a of None \<Rightarrow> b | Some s \<Rightarrow> if s \<noteq> [] then s else b)"

text \<open>A \<^verbatim>\<open>Date\<close> is its time value in milliseconds, \<open>None\<close> for an invalid date (time value
  NaN, for which every comparison is false); \<open>Date_parse\<close> is \<^verbatim>\<open>new Date(string)\<close> and
  \<open>now\<close> the time value of \<^verbatim>\<open>new Date()\<close>.\<close>

definition releaseDate_of :: "(string \<Rightarrow> int option) \<Rightarrow> Movie \<Rightarrow> int option" where
  "releaseDate_of Date_parse movie =
    Date_parse (or_else (inCinemas movie)
                 (or_else (digitalRelease movie) (or_else (physicalRelease movie) [])))"

text \<open>\<^verbatim>\<open>getAvailabilityStatus\<close> of the grid view of the missing movies.\<close>

definition getAvailabilityStatus_grid :: "(string \<Rightarrow> int option) \<Rightarrow> int \<Rightarrow> Movie \<Rightarrow> string" where
  "getAvailabilityStatus_grid Date_parse now movie =
    (if \<not> truthy (inCinemas movie) \<and> \<not> truthy (digitalRelease movie)
        \<and> \<not> truthy (physicalRelease movie)
     then ''Not Released''
     else
       (case releaseDate_of Date_parse movie of
          Some releaseDate \<Rightarrow> if releaseDate > now then ''Upcoming'' else ''Missing''
        | None \<Rightarrow> ''Missing''))"

text \<open>\<^verbatim>\<open>getAvailabilityStatus\<close> of the list view of the missing movies. With an invalid
  date \<^verbatim>\<open>daysSinceRelease\<close> is NaN and both comparisons are false.\<close>

definition getAvailabilityStatus_list :: "(string \<Rightarrow> int option) \<Rightarrow> int \<Rightarrow> Movie \<Rightarrow> string" where
  "getAvailabilityStatus_list Date_parse now movie =
    (if \<not> truthy (inCinemas movie) \<and> \<not> truthy (digitalRelease movie)
        \<and> \<not> truthy (physicalRelease movie)
     then ''Not Released''
     else
       (case releaseDate_of Date_parse movie of
          Some releaseDate \<Rightarrow>
            if releaseDate > now then ''Upcoming''
            else
              let daysSinceRelease = (now - releaseDate) div (1000 * 60 * 60 * 24)
              in if daysSinceRelease < 30 then ''Recent''
                 else if daysSinceRelease < 90 then ''Available''
                 else ''Long Available''
        | None \<Rightarrow> ''Long Available''))"




text \<open>\<^verbatim>\<open>getTimeLeft\<close> of the queue view.\<close>

definition getTimeLeft :: "(string \<Rightarrow> int option) \<Rightarrow> int \<Rightarrow> QueueItem \<Rightarrow> string" where
  "getTimeLeft Date_parse now item =
    (if truthy (timeleft item) \<and> timeleft item \<noteq> Some ''00:00:00''
     then or_else (timeleft item) []
     else if truthy (estimatedCompletionTime item)
     then
       (case Date_parse (or_else (estimatedCompletionTime item) []) of
          Some completion \<Rightarrow>
            let diffMs = completion - now
            in if diffMs > 0
               then
                 let hours = diffMs div (1000 * 60 * 60);
                     minutes = (diffMs mod (1000 * 60 * 60)) div (1000 * 60)
                 in show_int hours @ ''h '' @ show_int minutes @ ''m''
               else ''Unknown''
        | None \<Rightarrow> ''Unknown'')
     else ''Unknown'')"

subsection \<open>Radarr API client (\<^verbatim>\<open>hooks/useRadarrAPI.ts\<close>)\<close>

text \<open>\<^verbatim>\<open>fetch\<close> is a parameter: it rejects (\<open>Inl\<close>, a network failure) or resolves to a
  response, whose body text is read without failure. \<^verbatim>\<open>response.ok\<close> holds for the
  status codes 200 to 299.\<close>

datatype http_method = GET | POST | DELETE

record Request =
  request_method :: http_method
  request_url :: string
  request_headers :: "(string \<times> string) list"
  request_body :: "string option"

record Response =
  status_code :: int
  statusText :: string
  body_text :: string

definition ok :: "Response \<Rightarrow> bool" where
  "ok response = (200 \<le> status_code response \<and> status_code response \<le> 299)"

datatype toast_style = Success | Failure

record Toast =
  toast_style :: toast_style
  toast_title :: string
  toast_message :: string

text \<open>The payload of \<^verbatim>\<open>addMovie\<close>: the fields copied from the lookup result, then the
  four placement parameters (\<open>payload_monitored\<close> is the key \<^verbatim>\<open>monitored\<close>,
  \<open>searchForMovie\<close> the one field of \<^verbatim>\<open>addOptions\<close>).\<close>

record AddMoviePayload = MovieLookup +
  qualityProfileId :: int
  rootFolderPath :: string
  payload_monitored :: bool
  searchForMovie :: bool

text \<open>The payload object and the request that \<^verbatim>\<open>addMovie\<close> builds; \<open>JSON_stringify\<close>
  renders the payload.\<close>

definition addMovie_payload :: "MovieLookup \<Rightarrow> int \<Rightarrow> string \<Rightarrow> bool \<Rightarrow> bool \<Rightarrow> AddMoviePayload" where
  "addMovie_payload movie qualityProfileId' rootFolderPath' monitored' searchOnAdd =
     \<lparr>title = title movie, originalTitle = originalTitle movie,
      sortTitle = sortTitle movie, status = status movie, overview = overview movie,
      inCinemas = inCinemas movie, images = images movie, website = website movie,
      year = year movie, runtime = runtime movie, imdbId = imdbId movie,
      tmdbId = tmdbId movie, genres = genres movie, ratings = ratings movie,
      qualityProfileId = qualityProfileId', rootFolderPath = rootFolderPath',
      payload_monitored = monitored', searchForMovie = searchOnAdd\<rparr>"

definition addMovie_request ::
  "(AddMoviePayload \<Rightarrow> string) \<Rightarrow> RadarrInstance \<Rightarrow> AddMoviePayload \<Rightarrow> Request" where
  "addMovie_request JSON_stringify instance payload =
     \<lparr>request_method = POST,
      request_url = url instance @ ''/api/v3/movie'',
      request_headers = [(''X-Api-Key'', apiKey instance),
                         (''Content-Type'', ''application/json'')],
      request_body = Some (JSON_stringify payload)\<rparr>"

text \<open>\<^verbatim>\<open>addMovie\<close> returns the outcome of the promise and the toast it shows.
  \<open>response_json\<close> is \<^verbatim>\<open>response.json()\<close> at the type \<^verbatim>\<open>Movie\<close>, which throws on a body
  that is not JSON. Every exception of the \<^verbatim>\<open>try\<close> block is thrown again by the
  \<^verbatim>\<open>catch\<close> block, after the failure toast.\<close>

definition addMovie ::
  "(Request \<Rightarrow> error + Response) \<Rightarrow> (AddMoviePayload \<Rightarrow> string) \<Rightarrow> (string \<Rightarrow> error + Movie)
     \<Rightarrow> RadarrInstance \<Rightarrow> MovieLookup \<Rightarrow> int \<Rightarrow> string \<Rightarrow> bool \<Rightarrow> bool
     \<Rightarrow> (error + Movie) \<times> Toast" where
  "addMovie fetch JSON_stringify response_json instance movie qualityProfileId' rootFolderPath'
      monitored' searchOnAdd =
    (let payload =
           addMovie_payload movie qualityProfileId' rootFolderPath' monitored' searchOnAdd;
         attempt =
           (case fetch (addMovie_request JSON_stringify instance payload) of
              Inl e \<Rightarrow> Inl e
            | Inr response \<Rightarrow>
                if \<not> ok response
                then Inl (Error (''HTTP '' @ show_int (status_code response) @ '': ''
                                   @ body_text response))
                else response_json (body_text response))
     in case attempt of
          Inr addedMovie \<Rightarrow>
            (Inr addedMovie,
             \<lparr>toast_style = Success, toast_title = ''Movie Added'',
              toast_message = title movie @ '' ('' @ show_int (year movie) @ '') added to ''
                                @ name instance\<rparr>)
        | Inl e \<Rightarrow>
            (Inl e,
             \<lparr>toast_style = Failure, toast_title = ''Failed to Add Movie'',
              toast_message = ''Could not add '' @ title movie @ '': '' @ message e\<rparr>))"

text \<open>\<^verbatim>\<open>testConnection\<close>: its request, and the \<^verbatim>\<open>catch\<close> that turns a rejected
  \<^verbatim>\<open>fetch\<close> into \<^verbatim>\<open>false\<close>.\<close>

definition testConnection_request :: "RadarrInstance \<Rightarrow> Request" where
  "testConnection_request instance =
     \<lparr>request_method = GET,
      request_url = url instance @ ''/api/v3/system/status'',
      request_headers = [(''X-Api-Key'', apiKey instance),
                         (''Content-Type'', ''application/json'')],
      request_body = None\<rparr>"

definition testConnection :: "(Request \<Rightarrow> error + Response) \<Rightarrow> RadarrInstance \<Rightarrow> error + bool" where
  "testConnection fetch instance =
    (case fetch (testConnection_request instance) of
       Inl e \<Rightarrow> Inr False
     | Inr response \<Rightarrow> Inr (ok response))"

subsection \<open>Notions of the specification\<close>

text \<open>The default-selection contract in the words of the specification: the entry with
  \<^verbatim>\<open>isDefault = true\<close> if present (the first of them), else the first entry, else a
  failure.\<close>

definition spec_default :: "RadarrInstance list \<Rightarrow> error + RadarrInstance" where
  "spec_default instances =
    (if list_ex isDefault instances then Inr (hd (filter isDefault instances))
     else if instances \<noteq> [] then Inr (hd instances)
     else Inl (Error ''No Radarr instances configured''))"

text \<open>A preference that is missing or empty; a non-empty string of white space only; a
  string that ends in two slashes; the instance that the static primary slot describes.\<close>

definition missing_or_empty :: "string option \<Rightarrow> bool" where
  "missing_or_empty a = (a = None \<or> a = Some [])"


definition ends_in_two_slashes :: "string \<Rightarrow> bool" where
  "ends_in_two_slashes u = (take 2 (rev u) = ''//'')"

definition primary_of :: "Preferences \<Rightarrow> RadarrInstance" where
  "primary_of preferences =
     \<lparr>name = primaryInstanceName preferences,
      url = strip_trailing_slash (primaryInstanceUrl preferences),
      apiKey = primaryInstanceApiKey preferences, isDefault = True\<rparr>"

text \<open>The membership test of \<^verbatim>\<open>getCurrentInstance\<close>: some resolved instance has the
  name and the URL of \<open>X\<close>.\<close>

definition same_name_url :: "RadarrInstance \<Rightarrow> RadarrInstance list \<Rightarrow> bool" where
  "same_name_url X instances = list_ex (\<lambda>instance. name instance = name X \<and> url instance = url X) instances"

text \<open>The release date chosen by precedence: cinema over digital over physical, among the
  dates that are present and not empty; and the whole days from a release to now.\<close>

definition chosen_release :: "Movie \<Rightarrow> string option" where
  "chosen_release movie =
    (if truthy (inCinemas movie) then inCinemas movie
     else if truthy (digitalRelease movie) then digitalRelease movie
     else if truthy (physicalRelease movie) then physicalRelease movie
     else None)"

definition days_since :: "int \<Rightarrow> int \<Rightarrow> int" where
  "days_since now released = (now - released) div 86400000"

subsection \<open>Sample data\<close>

definition home_instance :: RadarrInstance where
  "home_instance =
     \<lparr>name = ''Home'', url = ''http://radarr.local:7878'', apiKey = ''k1'', isDefault = True\<rparr>"

definition uhd_instance :: RadarrInstance where
  "uhd_instance =
     \<lparr>name = ''UHD'', url = ''http://radarr.local:7879'', apiKey = ''k2'', isDefault = False\<rparr>"

definition two_instances :: Preferences where
  "two_instances =
     \<lparr>primaryInstanceName = ''Home'', primaryInstanceUrl = ''http://radarr.local:7878/'',
      primaryInstanceApiKey = ''k1'', enableSecondaryInstance = Some True,
      secondaryInstanceName = Some ''UHD'', secondaryInstanceUrl = Some ''http://radarr.local:7879'',
      secondaryInstanceApiKey = Some ''k2''\<rparr>"

definition partial_secondary :: Preferences where
  "partial_secondary = two_instances\<lparr>secondaryInstanceApiKey := Some []\<rparr>"


text \<open>A dynamic configuration of two entries, the second marked default, and its parser.\<close>

definition second_default :: "RawRadarrInstance list" where
  "second_default =
     [\<lparr>raw_name = Some ''Home'', raw_url = Some ''http://radarr.local:7878/'',
       raw_apiKey = Some ''k1'', raw_isDefault = None\<rparr>,
      \<lparr>raw_name = Some ''UHD'', raw_url = Some ''http://radarr.local:7879'',
       raw_apiKey = Some ''k2'', raw_isDefault = Some True\<rparr>]"

definition sample_parse_instances :: "string \<Rightarrow> error + parsed_instances" where
  "sample_parse_instances text =
     (if text = ''[]'' then Inr (Array [])
      else if text = ''two'' then Inr (Array second_default)
      else Inl (Error ''Unexpected token''))"

text \<open>A JSON rendering of an instance (for field values that need no escaping), and a
  parser that knows the two sample instances.\<close>

definition sample_stringify :: \<open>RadarrInstance \<Rightarrow> string\<close> where
  \<open>sample_stringify instance =
     ''{"name":"'' @ name instance @ ''","url":"'' @ url instance @ ''","apiKey":"''
       @ apiKey instance @ ''","isDefault":'' @ (if isDefault instance then ''true'' else ''false'')
       @ ''}''\<close>

definition sample_parse :: "string \<Rightarrow> RadarrInstance option" where
  "sample_parse text =
     (if text = sample_stringify home_instance then Some home_instance
      else if text = sample_stringify uhd_instance then Some uhd_instance
      else None)"

text \<open>Dates around the second of May 2024, 00:00 UTC, taken as now.\<close>

definition sample_Date_parse :: "string \<Rightarrow> int option" where
  "sample_Date_parse s =
     (if s = ''2024-05-01T00:00:00Z'' then Some 1714521600000
      else if s = ''2024-05-03T00:00:00Z'' then Some 1714694400000
      else if s = ''2024-05-02T15:42:30Z'' then Some 1714664550000
      else None)"

definition sample_now :: int where
  "sample_now = 1714608000000"

definition sample_lookup :: MovieLookup where
  "sample_lookup =
     \<lparr>title = ''Alien'', originalTitle = ''Alien'', sortTitle = ''alien'', status = ''released'',
      overview = None, inCinemas = Some ''2024-05-01T00:00:00Z'', images = ''[]'', website = None,
      year = 1979, runtime = 117, imdbId = Some ''tt0078748'', tmdbId = 348, genres = [''Horror''],
      ratings = ''{}''\<rparr>"

definition sample_movie :: Movie where
  "sample_movie =
     \<lparr>title = ''Alien'', originalTitle = ''Alien'', sortTitle = ''alien'', status = ''released'',
      overview = None, inCinemas = Some ''2024-05-01T00:00:00Z'', images = ''[]'', website = None,
      year = 1979, runtime = 117, imdbId = Some ''tt0078748'', tmdbId = 348, genres = [''Horror''],
      ratings = ''{}'', movie_id = 7, monitored = True, hasFile = False,
      digitalRelease = Some ''2024-05-03T00:00:00Z'', physicalRelease = None\<rparr>"

definition sample_item :: QueueItem where
  "sample_item = \<lparr>item_size = 100, sizeleft = 25, timeleft = Some ''00:00:00'',
                   estimatedCompletionTime = Some ''2024-05-02T15:42:30Z''\<rparr>"

text \<open>A server answering every request with the status \<open>code\<close> (0: no answer at all), the
  reading of its response body as a movie, and a rendering of the payload.\<close>

definition sample_server :: "int \<Rightarrow> Request \<Rightarrow> error + Response" where
  "sample_server code request =
     (if code = 0 then Inl (Error ''fetch failed'')
      else if code = 201 then Inr \<lparr>status_code = 201, statusText = ''Created'', body_text = ''movie 7''\<rparr>
      else Inr \<lparr>status_code = code, statusText = ''Bad Request'', body_text = ''path is invalid''\<rparr>)"

definition sample_response_json :: "string \<Rightarrow> error + Movie" where
  "sample_response_json body = (if body = ''movie 7'' then Inr sample_movie else Inl (Error ''Unexpected token''))"

definition sample_payload_text :: "AddMoviePayload \<Rightarrow> string" where
  "sample_payload_text payload = title payload"

section \<open>Properties\<close>

subsection \<open>Helper lemmas\<close>

lemma strip_snoc_slash: "strip_trailing_slash (v @ ''/'') = v"
  by (simp add: strip_trailing_slash_def)

lemma strip_no_slash: "s = [] \<or> last s \<noteq> CHR ''/'' \<Longrightarrow> strip_trailing_slash s = s"
  by (auto simp add: strip_trailing_slash_def)

lemma ends_in_two_slashes_iff: "ends_in_two_slashes u \<longleftrightarrow> (\<exists>v. u = v @ ''//'')"
proof
  assume "ends_in_two_slashes u"
  then obtain w where "rev u = ''//'' @ w"
    unfolding ends_in_two_slashes_def by (metis append_take_drop_id)
  then have "u = rev w @ ''//''"
    by (metis rev_append rev_rev_ident rev.simps append.simps)
  then show "\<exists>v. u = v @ ''//''" by blast
next
  assume "\<exists>v. u = v @ ''//''"
  then show "ends_in_two_slashes u" by (auto simp add: ends_in_two_slashes_def)
qed






lemma find_hd_filter: "find P xs = (if list_ex P xs then Some (hd (filter P xs)) else None)"
  by (induction xs) auto

lemma getDefault_of_spec: "getDefaultRadarrInstance_of (Inr instances) = spec_default instances"
  by (cases instances)
     (auto simp add: getDefaultRadarrInstance_of_def spec_default_def find_hd_filter)

lemma hd_filter_mem: "list_ex P xs \<Longrightarrow> hd (filter P xs) \<in> set xs \<and> P (hd (filter P xs))"
  by (induction xs) auto

lemma spec_default_member:
  assumes "instances \<noteq> []"
  shows "\<exists>d. spec_default instances = Inr d \<and> d \<in> set instances
           \<and> (list_ex isDefault instances \<longrightarrow> isDefault d)
           \<and> (\<not> list_ex isDefault instances \<longrightarrow> d = hd instances)"
  using assms by (auto simp add: spec_default_def hd_filter_mem)


lemma two_instances_resolved:
  "getRadarrInstances two_instances = Inr [home_instance, uhd_instance]"
  by (simp add: getRadarrInstances_def two_instances_def home_instance_def uhd_instance_def
        strip_trailing_slash_def)

lemma second_default_resolved:
  "getRadarrInstances_dyn sample_parse_instances ''two''
     = Inr [home_instance\<lparr>isDefault := False\<rparr>, uhd_instance\<lparr>isDefault := True\<rparr>]"
  by (simp add: getRadarrInstances_dyn_def sample_parse_instances_def second_default_def
        home_instance_def uhd_instance_def strip_trailing_slash_def)

lemma empty_array_resolved:
  "getRadarrInstances_dyn sample_parse_instances ''[]'' = Inr []"
  by (simp add: getRadarrInstances_dyn_def sample_parse_instances_def)

subsection \<open>Default selection\<close>

text \<open>
  C2. In both variants of the resolver, when resolution yields the list \<open>instances\<close>,
  \<^verbatim>\<open>getDefaultRadarrInstance\<close> returns what the specification's contract names: the first
  entry marked default when one is marked, otherwise the first entry. With at least one
  instance that is one instance, a member of the resolved list, whether zero or several
  entries are marked (a marked one when any is marked, the head of the list when none
  is); with no instance it is the error "No Radarr instances configured".
\<close>

theorem getDefault_selection:
  "(getRadarrInstances preferences = Inr instances \<longrightarrow>
      getDefaultRadarrInstance preferences = spec_default instances)
   \<and> (getRadarrInstances_dyn JSON_parse instances_pref = Inr instances \<longrightarrow>
      getDefaultRadarrInstance_dyn JSON_parse instances_pref = spec_default instances)
   \<and> (instances \<noteq> [] \<longrightarrow>
        (\<exists>d. spec_default instances = Inr d \<and> d \<in> set instances
           \<and> (list_ex isDefault instances \<longrightarrow> isDefault d)
           \<and> (\<not> list_ex isDefault instances \<longrightarrow> d = hd instances)))
   \<and> spec_default [] = Inl (Error ''No Radarr instances configured'')"
proof -
  have static: "getRadarrInstances preferences = Inr instances \<longrightarrow>
      getDefaultRadarrInstance preferences = spec_default instances"
    by (simp add: getDefaultRadarrInstance_def getDefault_of_spec)
  have dynamic: "getRadarrInstances_dyn JSON_parse instances_pref = Inr instances \<longrightarrow>
      getDefaultRadarrInstance_dyn JSON_parse instances_pref = spec_default instances"
    by (simp add: getDefaultRadarrInstance_dyn_def getDefault_of_spec)
  have member: "instances \<noteq> [] \<longrightarrow>
        (\<exists>d. spec_default instances = Inr d \<and> d \<in> set instances
           \<and> (list_ex isDefault instances \<longrightarrow> isDefault d)
           \<and> (\<not> list_ex isDefault instances \<longrightarrow> d = hd instances))"
    using spec_default_member by blast
  have none: "spec_default [] = Inl (Error ''No Radarr instances configured'')"
    by (simp add: spec_default_def)
  from static dynamic member none show ?thesis by blast
qed

theorem getDefault_selection_witness:
  "getRadarrInstances two_instances = Inr [home_instance, uhd_instance]
   \<and> getDefaultRadarrInstance two_instances = Inr home_instance
   \<and> getRadarrInstances_dyn sample_parse_instances ''two''
       = Inr [home_instance\<lparr>isDefault := False\<rparr>, uhd_instance\<lparr>isDefault := True\<rparr>]
   \<and> getDefaultRadarrInstance_dyn sample_parse_instances ''two''
       = Inr (uhd_instance\<lparr>isDefault := True\<rparr>)
   \<and> getRadarrInstances_dyn sample_parse_instances ''[]'' = Inr []
   \<and> getDefaultRadarrInstance_dyn sample_parse_instances ''[]''
       = Inl (Error ''No Radarr instances configured'')"
  using getDefault_selection [of two_instances "[home_instance, uhd_instance]"]
    getDefault_selection [of _ "[home_instance\<lparr>isDefault := False\<rparr>, uhd_instance\<lparr>isDefault := True\<rparr>]"
      sample_parse_instances "''two''"]
    getDefault_selection [of _ "[]" sample_parse_instances "''[]''"]
  by (simp add: two_instances_resolved second_default_resolved empty_array_resolved
        spec_default_def home_instance_def uhd_instance_def)

subsection \<open>URL normalization\<close>

text \<open>
  C3, as amended. Normalization strips one trailing slash. Applying it twice gives the
  same result as applying it once exactly for the strings that do not end in two slashes;
  so it is idempotent on every URL with exactly one trailing slash (and on those with
  none), and not on a URL with two or more.
\<close>

theorem strip_trailing_slash_idempotent_iff:
  "strip_trailing_slash (strip_trailing_slash u) = strip_trailing_slash u
     \<longleftrightarrow> \<not> ends_in_two_slashes u"
proof (cases "\<exists>v. u = v @ ''//''")
  case True
  then obtain v where u: "u = v @ ''//''" by blast
  have "strip_trailing_slash u = v @ ''/''"
    using strip_snoc_slash [of "v @ ''/''"] by (simp add: u)
  then show ?thesis
    using True strip_snoc_slash [of v] by (simp add: ends_in_two_slashes_iff)
next
  case False
  then have no_two: "\<not> ends_in_two_slashes u" by (simp add: ends_in_two_slashes_iff)
  show ?thesis
  proof (cases "u \<noteq> [] \<and> last u = CHR ''/''")
    case True
    then obtain v where u: "u = v @ ''/''"
      by (metis append_butlast_last_id)
    with False have "v = [] \<or> last v \<noteq> CHR ''/''"
      by (metis append_butlast_last_id append.assoc append_Cons append_Nil)
    then have "strip_trailing_slash (strip_trailing_slash u) = strip_trailing_slash u"
      by (simp add: u strip_snoc_slash strip_no_slash)
    then show ?thesis using no_two by simp
  next
    case False
    then have "strip_trailing_slash u = u" by (auto simp add: strip_no_slash)
    then show ?thesis using no_two by simp
  qed
qed

theorem strip_trailing_slash_idempotent_witness:
  "\<not> ends_in_two_slashes ''http://radarr.local:7878/''
   \<and> strip_trailing_slash (strip_trailing_slash ''http://radarr.local:7878/'')
       = strip_trailing_slash ''http://radarr.local:7878/''"
  using strip_trailing_slash_idempotent_iff [of "''http://radarr.local:7878/''"]
  by (simp add: ends_in_two_slashes_def)

text \<open>Idempotence as the specification states it, for one or more trailing slashes, fails
  on a URL with two of them.\<close>

theorem strip_trailing_slash_twice_counterexample:
  "strip_trailing_slash (strip_trailing_slash ''http://radarr.local:7878//'')
     \<noteq> strip_trailing_slash ''http://radarr.local:7878//''"
  by (simp add: strip_trailing_slash_def)

subsection \<open>Blank fields of the static configuration\<close>

text \<open>
  C9. In the static variant, when the secondary instance is enabled and one of its name,
  URL or API key is missing or empty, the secondary slot contributes neither an entry nor
  an error: with a complete primary slot resolution returns the primary instance alone,
  and the only error resolution can raise is the one about an incomplete primary slot.
\<close>

theorem secondary_partial_omitted:
  assumes enabled: "enableSecondaryInstance preferences = Some True"
    and partial: "missing_or_empty (secondaryInstanceName preferences)
        \<or> missing_or_empty (secondaryInstanceUrl preferences)
        \<or> missing_or_empty (secondaryInstanceApiKey preferences)"
  shows "(primaryInstanceName preferences \<noteq> [] \<and> primaryInstanceUrl preferences \<noteq> []
            \<and> primaryInstanceApiKey preferences \<noteq> [] \<longrightarrow>
          getRadarrInstances preferences = Inr [primary_of preferences])
       \<and> (primaryInstanceName preferences = [] \<or> primaryInstanceUrl preferences = []
            \<or> primaryInstanceApiKey preferences = [] \<longrightarrow>
          getRadarrInstances preferences
            = Inl (Error ''Primary Radarr instance configuration is incomplete''))"
  using assms
  by (auto simp add: getRadarrInstances_def primary_of_def missing_or_empty_def Let_def
        split: option.splits bool.splits)

theorem secondary_partial_omitted_witness:
  "enableSecondaryInstance partial_secondary = Some True
   \<and> missing_or_empty (secondaryInstanceApiKey partial_secondary)
   \<and> getRadarrInstances partial_secondary = Inr [home_instance]"
  using secondary_partial_omitted [of partial_secondary]
  by (simp add: partial_secondary_def two_instances_def missing_or_empty_def primary_of_def
        home_instance_def strip_trailing_slash_def)



subsection \<open>Instance selection store\<close>

text \<open>
  C1. Let \<open>X\<close> be an instance that the JSON codec renders as a non-empty text and reads
  back. After \<^verbatim>\<open>setCurrentInstance(X)\<close>, \<^verbatim>\<open>getCurrentInstance()\<close> returns \<open>X\<close> and keeps the
  override when the freshly resolved list has an instance with the name and URL of \<open>X\<close>.
  When it has none, and when the stored text does not parse, the override is deleted and
  the result is that of \<^verbatim>\<open>getActiveRadarrInstance\<close>, the default chosen from the resolved
  configuration. When resolution itself fails, the override is deleted and the failure of
  the resolver is the result.
\<close>

theorem getCurrent_after_setCurrent:
  assumes codec: "JSON_stringify X \<noteq> []" "JSON_parse (JSON_stringify X) = Some X"
  shows "(resolved = Inr available \<and> same_name_url X available \<longrightarrow>
            getCurrentInstance JSON_parse resolved (setCurrentInstance JSON_stringify X storage)
              = (Inr X, setCurrentInstance JSON_stringify X storage))
       \<and> (resolved = Inr available \<and> \<not> same_name_url X available \<longrightarrow>
            getCurrentInstance JSON_parse resolved (setCurrentInstance JSON_stringify X storage)
              = (getActiveRadarrInstance resolved, storage(SELECTED_INSTANCE_KEY := None)))
       \<and> (resolved = Inl failure \<longrightarrow>
            getCurrentInstance JSON_parse resolved (setCurrentInstance JSON_stringify X storage)
              = (Inl failure, storage(SELECTED_INSTANCE_KEY := None)))
       \<and> (storage SELECTED_INSTANCE_KEY = Some stored \<and> stored \<noteq> [] \<and> JSON_parse stored = None \<longrightarrow>
            getCurrentInstance JSON_parse resolved storage
              = (getActiveRadarrInstance resolved, storage(SELECTED_INSTANCE_KEY := None)))
       \<and> getActiveRadarrInstance resolved = getDefaultRadarrInstance_of resolved"
proof -
  have present: "resolved = Inr available \<and> same_name_url X available \<longrightarrow>
            getCurrentInstance JSON_parse resolved (setCurrentInstance JSON_stringify X storage)
              = (Inr X, setCurrentInstance JSON_stringify X storage)"
    using codec
    by (simp add: getCurrentInstance_def setCurrentInstance_def same_name_url_def)
  have absent: "resolved = Inr available \<and> \<not> same_name_url X available \<longrightarrow>
            getCurrentInstance JSON_parse resolved (setCurrentInstance JSON_stringify X storage)
              = (getActiveRadarrInstance resolved, storage(SELECTED_INSTANCE_KEY := None))"
    using codec
    by (simp add: getCurrentInstance_def setCurrentInstance_def same_name_url_def)
  have unresolved: "resolved = Inl failure \<longrightarrow>
            getCurrentInstance JSON_parse resolved (setCurrentInstance JSON_stringify X storage)
              = (Inl failure, storage(SELECTED_INSTANCE_KEY := None))"
    using codec
    by (simp add: getCurrentInstance_def setCurrentInstance_def getActiveRadarrInstance_def
          getDefaultRadarrInstance_of_def)
  have garbled: "storage SELECTED_INSTANCE_KEY = Some stored \<and> stored \<noteq> [] \<and> JSON_parse stored = None \<longrightarrow>
            getCurrentInstance JSON_parse resolved storage
              = (getActiveRadarrInstance resolved, storage(SELECTED_INSTANCE_KEY := None))"
    by (simp add: getCurrentInstance_def)
  have fallback: "getActiveRadarrInstance resolved = getDefaultRadarrInstance_of resolved"
    by (simp add: getActiveRadarrInstance_def)
  from present absent unresolved garbled fallback show ?thesis by blast
qed

lemma partial_secondary_resolved:
  "getRadarrInstances partial_secondary = Inr [home_instance]"
  by (simp add: getRadarrInstances_def partial_secondary_def two_instances_def home_instance_def
        strip_trailing_slash_def)

lemma sample_codec:
  "sample_stringify uhd_instance \<noteq> []"
  "sample_parse (sample_stringify uhd_instance) = Some uhd_instance"
  by (simp_all add: sample_parse_def sample_stringify_def home_instance_def uhd_instance_def)

theorem getCurrent_after_setCurrent_witness:
  "getCurrentInstance sample_parse (getRadarrInstances two_instances)
       (setCurrentInstance sample_stringify uhd_instance Map.empty)
     = (Inr uhd_instance, setCurrentInstance sample_stringify uhd_instance Map.empty)
   \<and> getCurrentInstance sample_parse (getRadarrInstances partial_secondary)
       (setCurrentInstance sample_stringify uhd_instance Map.empty)
     = (Inr home_instance, Map.empty)
   \<and> getCurrentInstance sample_parse (getRadarrInstances two_instances)
       [SELECTED_INSTANCE_KEY \<mapsto> ''{broken'']
     = (Inr home_instance, Map.empty)"
  using
    getCurrent_after_setCurrent [where JSON_stringify = sample_stringify and X = uhd_instance and JSON_parse = sample_parse
          and resolved = "getRadarrInstances two_instances"
          and available = "[home_instance, uhd_instance]" and storage = Map.empty]
    getCurrent_after_setCurrent [where JSON_stringify = sample_stringify and X = uhd_instance and JSON_parse = sample_parse
          and resolved = "getRadarrInstances partial_secondary"
          and available = "[home_instance]" and storage = Map.empty]
    getCurrent_after_setCurrent [where JSON_stringify = sample_stringify and X = uhd_instance and JSON_parse = sample_parse
          and resolved = "getRadarrInstances two_instances"
          and storage = "[SELECTED_INSTANCE_KEY \<mapsto> ''{broken'']" and stored = "''{broken''"]
  by (simp add: sample_codec two_instances_resolved partial_secondary_resolved same_name_url_def
      getDefaultRadarrInstance_of_def home_instance_def uhd_instance_def sample_parse_def
      sample_stringify_def)

subsection \<open>Availability classification\<close>

lemma chosen_None:
  "chosen_release movie = None \<longleftrightarrow>
     \<not> truthy (inCinemas movie) \<and> \<not> truthy (digitalRelease movie) \<and> \<not> truthy (physicalRelease movie)"
  by (auto simp add: chosen_release_def truthy_def split: option.splits)

lemma chosen_Some:
  "chosen_release movie = Some s \<Longrightarrow> releaseDate_of Date_parse movie = Date_parse s"
  by (auto simp add: chosen_release_def releaseDate_of_def truthy_def or_else_def
        split: option.splits if_splits)

lemma grid_cases:
  "getAvailabilityStatus_grid Date_parse now movie =
    (case chosen_release movie of
       None \<Rightarrow> ''Not Released''
     | Some s \<Rightarrow>
        (case Date_parse s of
           Some t \<Rightarrow> if t > now then ''Upcoming'' else ''Missing''
         | None \<Rightarrow> ''Missing''))"
proof (cases "chosen_release movie")
  case None
  then have "\<not> truthy (inCinemas movie) \<and> \<not> truthy (digitalRelease movie)
        \<and> \<not> truthy (physicalRelease movie)"
    by (simp add: chosen_None)
  then show ?thesis using None by (simp add: getAvailabilityStatus_grid_def)
next
  case (Some s)
  then have "chosen_release movie \<noteq> None" by simp
  then have "\<not> (\<not> truthy (inCinemas movie) \<and> \<not> truthy (digitalRelease movie)
        \<and> \<not> truthy (physicalRelease movie))"
    by (simp add: chosen_None)
  then show ?thesis
    using Some
    by (auto simp add: getAvailabilityStatus_grid_def chosen_Some [OF Some] split: option.splits)
qed

lemma list_cases:
  "getAvailabilityStatus_list Date_parse now movie =
    (case chosen_release movie of
       None \<Rightarrow> ''Not Released''
     | Some s \<Rightarrow>
        (case Date_parse s of
           Some t \<Rightarrow>
             if t > now then ''Upcoming''
             else if days_since now t < 30 then ''Recent''
             else if days_since now t < 90 then ''Available''
             else ''Long Available''
         | None \<Rightarrow> ''Long Available''))"
proof (cases "chosen_release movie")
  case None
  then have "\<not> truthy (inCinemas movie) \<and> \<not> truthy (digitalRelease movie)
        \<and> \<not> truthy (physicalRelease movie)"
    by (simp add: chosen_None)
  then show ?thesis using None by (simp add: getAvailabilityStatus_list_def)
next
  case (Some s)
  then have "chosen_release movie \<noteq> None" by simp
  then have "\<not> (\<not> truthy (inCinemas movie) \<and> \<not> truthy (digitalRelease movie)
        \<and> \<not> truthy (physicalRelease movie))"
    by (simp add: chosen_None)
  then show ?thesis
    using Some
    by (auto simp add: getAvailabilityStatus_list_def chosen_Some [OF Some] days_since_def Let_def
          split: option.splits)
qed

text \<open>
  C4, as amended. With no release date present both views answer "Not Released". Otherwise
  the date chosen by precedence (cinema, digital, physical) is compared to now, and a
  future date gives "Upcoming" in both views. For a date that is not in the future the
  grid view answers "Missing", whatever \<^verbatim>\<open>monitored\<close> and \<^verbatim>\<open>hasFile\<close> are, and the list
  view answers "Recent", "Available" or "Long Available" by the days since the release
  (under 30, under 90, more). An unparsable date gives "Missing" in the grid view and
  "Long Available" in the list view.
\<close>

theorem availability_status_cases:
  "(chosen_release movie = None \<longrightarrow>
      getAvailabilityStatus_grid Date_parse now movie = ''Not Released''
      \<and> getAvailabilityStatus_list Date_parse now movie = ''Not Released'')
   \<and> (chosen_release movie = Some s \<and> Date_parse s = Some t \<and> now < t \<longrightarrow>
      getAvailabilityStatus_grid Date_parse now movie = ''Upcoming''
      \<and> getAvailabilityStatus_list Date_parse now movie = ''Upcoming'')
   \<and> (chosen_release movie = Some s \<and> Date_parse s = Some t \<and> t \<le> now \<longrightarrow>
      getAvailabilityStatus_grid Date_parse now movie = ''Missing''
      \<and> getAvailabilityStatus_list Date_parse now movie =
          (if days_since now t < 30 then ''Recent''
           else if days_since now t < 90 then ''Available'' else ''Long Available''))
   \<and> (chosen_release movie = Some s \<and> Date_parse s = None \<longrightarrow>
      getAvailabilityStatus_grid Date_parse now movie = ''Missing''
      \<and> getAvailabilityStatus_list Date_parse now movie = ''Long Available'')"
  by (simp add: grid_cases list_cases)

theorem availability_status_cases_witness:
  "chosen_release sample_movie = Some ''2024-05-01T00:00:00Z''
   \<and> getAvailabilityStatus_grid sample_Date_parse sample_now sample_movie = ''Missing''
   \<and> getAvailabilityStatus_list sample_Date_parse sample_now sample_movie = ''Recent''
   \<and> getAvailabilityStatus_grid sample_Date_parse sample_now
        (sample_movie\<lparr>inCinemas := Some ''2024-05-03T00:00:00Z''\<rparr>) = ''Upcoming''
   \<and> getAvailabilityStatus_grid sample_Date_parse sample_now
        (sample_movie\<lparr>inCinemas := None, digitalRelease := None\<rparr>) = ''Not Released''"
  using
    availability_status_cases [where movie = sample_movie and s = "''2024-05-01T00:00:00Z''"
          and Date_parse = sample_Date_parse and t = 1714521600000 and now = sample_now]
    availability_status_cases [where movie = "sample_movie\<lparr>inCinemas := Some ''2024-05-03T00:00:00Z''\<rparr>"
          and s = "''2024-05-03T00:00:00Z''"
          and Date_parse = sample_Date_parse and t = 1714694400000 and now = sample_now]
    availability_status_cases [where movie = "sample_movie\<lparr>inCinemas := None, digitalRelease := None\<rparr>"
          and Date_parse = sample_Date_parse and now = sample_now]
  by (simp add: chosen_release_def truthy_def sample_movie_def sample_Date_parse_def sample_now_def
        days_since_def)

text \<open>The four statuses of the specification do not describe the list view: a monitored
  movie without a file, in cinemas since yesterday, is "Recent" there, not "Missing".\<close>

theorem availability_list_counterexample:
  "monitored sample_movie \<and> \<not> hasFile sample_movie
   \<and> inCinemas sample_movie = Some ''2024-05-01T00:00:00Z''
   \<and> sample_Date_parse ''2024-05-01T00:00:00Z'' = Some (sample_now - 86400000)
   \<and> getAvailabilityStatus_list sample_Date_parse sample_now sample_movie = ''Recent''
   \<and> getAvailabilityStatus_list sample_Date_parse sample_now sample_movie
        \<notin> {''Not Released'', ''Upcoming'', ''Missing'', ''Available''}"
  by (simp add: getAvailabilityStatus_list_def releaseDate_of_def or_else_def truthy_def
        sample_movie_def sample_Date_parse_def sample_now_def Let_def)

subsection \<open>Queue formatters\<close>




lemma div_mod_parts:
  fixes d :: int
  assumes "0 < d"
  shows "0 \<le> d div 3600000 \<and> 0 \<le> (d mod 3600000) div 60000 \<and> (d mod 3600000) div 60000 < 60
    \<and> (d div 3600000) * 3600000 + ((d mod 3600000) div 60000) * 60000 \<le> d
    \<and> d < (d div 3600000) * 3600000 + ((d mod 3600000) div 60000 + 1) * 60000"
proof -
  define h where "h = d div 3600000"
  define r where "r = d mod 3600000"
  define m where "m = r div 60000"
  define s where "s = r mod 60000"
  have d: "d = h * 3600000 + r" by (simp add: h_def r_def)
  have r: "r = m * 60000 + s" by (simp add: m_def s_def)
  have rb: "0 \<le> r" "r < 3600000" by (simp_all add: r_def)
  have sb: "0 \<le> s" "s < 60000" by (simp_all add: s_def)
  have h0: "0 \<le> h" using assms by (simp add: h_def pos_imp_zdiv_nonneg_iff)
  have m0: "0 \<le> m" using rb by (simp add: m_def pos_imp_zdiv_nonneg_iff)
  have m60: "m < 60"
  proof (rule ccontr)
    assume "\<not> m < 60"
    then have "60 \<le> m" by simp
    then have "60 * 60000 \<le> m * 60000" by simp
    with r sb rb show False by linarith
  qed
  from d r rb sb h0 m0 m60 have
    "0 \<le> h \<and> 0 \<le> m \<and> m < 60 \<and> h * 3600000 + m * 60000 \<le> d
      \<and> d < h * 3600000 + (m + 1) * 60000"
    by (simp add: algebra_simps)
  then show ?thesis by (simp add: h_def m_def r_def)
qed

lemma getTimeLeft_server:
  "timeleft item = Some t \<Longrightarrow> t \<noteq> [] \<Longrightarrow> t \<noteq> ''00:00:00'' \<Longrightarrow>
     getTimeLeft Date_parse now item = t"
  by (simp add: getTimeLeft_def truthy_def or_else_def)

lemma getTimeLeft_fallthrough:
  assumes "\<not> truthy (timeleft item) \<or> timeleft item = Some ''00:00:00''"
  shows "getTimeLeft Date_parse now item =
    (if truthy (estimatedCompletionTime item)
     then
       (case Date_parse (or_else (estimatedCompletionTime item) []) of
          Some completion \<Rightarrow>
            if completion - now > 0
            then show_int ((completion - now) div 3600000) @ ''h ''
                   @ show_int (((completion - now) mod 3600000) div 60000) @ ''m''
            else ''Unknown''
        | None \<Rightarrow> ''Unknown'')
     else ''Unknown'')"
  using assms by (auto simp add: getTimeLeft_def Let_def split: option.splits)

lemma getTimeLeft_derived:
  assumes fallthrough: "\<not> truthy (timeleft item) \<or> timeleft item = Some ''00:00:00''"
    and e: "estimatedCompletionTime item = Some e" "e \<noteq> []" "Date_parse e = Some completion"
    and future: "now < completion"
  shows "\<exists>hours minutes.
            getTimeLeft Date_parse now item = show_int hours @ ''h '' @ show_int minutes @ ''m''
            \<and> 0 \<le> hours \<and> 0 \<le> minutes \<and> minutes < 60
            \<and> hours * 3600000 + minutes * 60000 \<le> completion - now
            \<and> completion - now < hours * 3600000 + (minutes + 1) * 60000"
proof -
  let ?d = "completion - now"
  from future have pos: "0 < ?d" by simp
  have "getTimeLeft Date_parse now item
      = show_int (?d div 3600000) @ ''h '' @ show_int ((?d mod 3600000) div 60000) @ ''m''"
    using e pos by (simp add: getTimeLeft_fallthrough [OF fallthrough] truthy_def or_else_def)
  then show ?thesis using div_mod_parts [OF pos] by blast
qed

lemma getTimeLeft_unknown:
  assumes fallthrough: "\<not> truthy (timeleft item) \<or> timeleft item = Some ''00:00:00''"
    and "\<not> truthy (estimatedCompletionTime item)
      \<or> (\<exists>e. estimatedCompletionTime item = Some e
            \<and> (Date_parse e = None \<or> (\<exists>completion. Date_parse e = Some completion \<and> completion \<le> now)))"
  shows "getTimeLeft Date_parse now item = ''Unknown''"
  using assms(2)
  by (auto simp add: getTimeLeft_fallthrough [OF fallthrough] truthy_def or_else_def
        split: option.splits)

text \<open>
  C6. \<^verbatim>\<open>getTimeLeft\<close> returns the server's \<^verbatim>\<open>timeleft\<close> when it is present, not empty
  and not "00:00:00". Otherwise, with an estimated completion time that parses to a moment
  strictly after now, it returns "\<open>h\<close>h \<open>m\<close>m" where \<open>h\<close> and \<open>m\<close> are the whole hours and
  the remaining whole minutes of the difference, both non-negative; with a completion time
  at or before now, an unparsable one, or none, it returns "Unknown".
\<close>

theorem getTimeLeft_cases:
  "(timeleft item = Some t \<and> t \<noteq> [] \<and> t \<noteq> ''00:00:00'' \<longrightarrow>
      getTimeLeft Date_parse now item = t)
   \<and> (\<not> truthy (timeleft item) \<or> timeleft item = Some ''00:00:00'' \<longrightarrow>
       (estimatedCompletionTime item = Some e \<and> e \<noteq> [] \<and> Date_parse e = Some completion
          \<and> now < completion \<longrightarrow>
        (\<exists>hours minutes.
            getTimeLeft Date_parse now item = show_int hours @ ''h '' @ show_int minutes @ ''m''
            \<and> 0 \<le> hours \<and> 0 \<le> minutes \<and> minutes < 60
            \<and> hours * 3600000 + minutes * 60000 \<le> completion - now
            \<and> completion - now < hours * 3600000 + (minutes + 1) * 60000))
       \<and> (estimatedCompletionTime item = Some e \<and> Date_parse e = Some completion
            \<and> completion \<le> now \<longrightarrow> getTimeLeft Date_parse now item = ''Unknown'')
       \<and> (estimatedCompletionTime item = Some e \<and> Date_parse e = None \<longrightarrow>
            getTimeLeft Date_parse now item = ''Unknown'')
       \<and> (\<not> truthy (estimatedCompletionTime item) \<longrightarrow>
            getTimeLeft Date_parse now item = ''Unknown''))"
proof (intro conjI impI)
  assume "timeleft item = Some t \<and> t \<noteq> [] \<and> t \<noteq> ''00:00:00''"
  then show "getTimeLeft Date_parse now item = t"
    by (simp add: getTimeLeft_server)
next
  assume f: "\<not> truthy (timeleft item) \<or> timeleft item = Some ''00:00:00''"
    and h: "estimatedCompletionTime item = Some e \<and> e \<noteq> [] \<and> Date_parse e = Some completion
          \<and> now < completion"
  from h have h1: "estimatedCompletionTime item = Some e" and h2: "e \<noteq> []"
    and h3: "Date_parse e = Some completion" and h4: "now < completion"
    by simp_all
  show "\<exists>hours minutes.
            getTimeLeft Date_parse now item = show_int hours @ ''h '' @ show_int minutes @ ''m''
            \<and> 0 \<le> hours \<and> 0 \<le> minutes \<and> minutes < 60
            \<and> hours * 3600000 + minutes * 60000 \<le> completion - now
            \<and> completion - now < hours * 3600000 + (minutes + 1) * 60000"
    by (rule getTimeLeft_derived [where Date_parse = Date_parse and e = e, OF f h1 h2 h3 h4])
next
  assume f: "\<not> truthy (timeleft item) \<or> timeleft item = Some ''00:00:00''"
    and h: "estimatedCompletionTime item = Some e \<and> Date_parse e = Some completion
            \<and> completion \<le> now"
  from h show "getTimeLeft Date_parse now item = ''Unknown''"
    by (intro getTimeLeft_unknown [where Date_parse = Date_parse, OF f]) blast
next
  assume f: "\<not> truthy (timeleft item) \<or> timeleft item = Some ''00:00:00''"
    and h: "estimatedCompletionTime item = Some e \<and> Date_parse e = None"
  from h show "getTimeLeft Date_parse now item = ''Unknown''"
    by (intro getTimeLeft_unknown [where Date_parse = Date_parse, OF f]) blast
next
  assume f: "\<not> truthy (timeleft item) \<or> timeleft item = Some ''00:00:00''"
    and h: "\<not> truthy (estimatedCompletionTime item)"
  from h show "getTimeLeft Date_parse now item = ''Unknown''"
    by (intro getTimeLeft_unknown [where Date_parse = Date_parse, OF f]) blast
qed

theorem getTimeLeft_cases_witness:
  "getTimeLeft sample_Date_parse sample_now (sample_item\<lparr>timeleft := Some ''01:30:00''\<rparr>) = ''01:30:00''
   \<and> getTimeLeft sample_Date_parse sample_now sample_item = ''15h 42m''
   \<and> getTimeLeft sample_Date_parse sample_now
        (sample_item\<lparr>estimatedCompletionTime := Some ''2024-05-01T00:00:00Z''\<rparr>) = ''Unknown''
   \<and> getTimeLeft sample_Date_parse sample_now
        (sample_item\<lparr>estimatedCompletionTime := None\<rparr>) = ''Unknown''"
  using
    getTimeLeft_cases [where item = "sample_item\<lparr>timeleft := Some ''01:30:00''\<rparr>" and t = "''01:30:00''"
          and Date_parse = sample_Date_parse and now = sample_now]
    getTimeLeft_cases [where item = sample_item and e = "''2024-05-02T15:42:30Z''" and completion = 1714664550000
          and Date_parse = sample_Date_parse and now = sample_now]
    getTimeLeft_cases [where item = "sample_item\<lparr>estimatedCompletionTime := Some ''2024-05-01T00:00:00Z''\<rparr>"
          and e = "''2024-05-01T00:00:00Z''" and completion = 1714521600000
          and Date_parse = sample_Date_parse and now = sample_now]
    getTimeLeft_cases [where item = "sample_item\<lparr>estimatedCompletionTime := None\<rparr>"
          and Date_parse = sample_Date_parse and now = sample_now]
  by (simp add: sample_item_def sample_Date_parse_def sample_now_def truthy_def getTimeLeft_def
        or_else_def show_int_def)

subsection \<open>API client\<close>

lemma addMovie_fst:
  "fst (addMovie fetch JSON_stringify response_json inst movie qualityProfile rootFolder
          monitoring searchOnAdd)
    = (case fetch (addMovie_request JSON_stringify inst
                    (addMovie_payload movie qualityProfile rootFolder monitoring searchOnAdd)) of
         Inl e \<Rightarrow> Inl e
       | Inr response \<Rightarrow>
           if \<not> ok response
           then Inl (Error (''HTTP '' @ show_int (status_code response) @ '': ''
                              @ body_text response))
           else response_json (body_text response))"
  by (simp add: addMovie_def Let_def split: sum.splits)

text \<open>
  C7. When the server answers the POST request of \<^verbatim>\<open>addMovie\<close> with a 2xx status and a
  body that decodes to a movie, \<^verbatim>\<open>addMovie\<close> returns that movie (with the identifier the
  response carries); when it answers with any other status, \<^verbatim>\<open>addMovie\<close> throws an error
  whose message carries the status and the response body. A movie is returned only in the
  first case.
\<close>

theorem addMovie_outcome:
  "(fetch (addMovie_request JSON_stringify inst
            (addMovie_payload movie qualityProfile rootFolder monitoring searchOnAdd)) = Inr response \<longrightarrow>
      (ok response \<and> response_json (body_text response) = Inr created \<longrightarrow>
         fst (addMovie fetch JSON_stringify response_json inst movie qualityProfile rootFolder
                monitoring searchOnAdd) = Inr created)
      \<and> (\<not> ok response \<longrightarrow>
         fst (addMovie fetch JSON_stringify response_json inst movie qualityProfile rootFolder
                monitoring searchOnAdd)
           = Inl (Error (''HTTP '' @ show_int (status_code response) @ '': '' @ body_text response))))
   \<and> (fst (addMovie fetch JSON_stringify response_json inst movie qualityProfile rootFolder
              monitoring searchOnAdd) = Inr returned \<longrightarrow>
        (\<exists>response.
           fetch (addMovie_request JSON_stringify inst
                   (addMovie_payload movie qualityProfile rootFolder monitoring searchOnAdd))
             = Inr response
           \<and> ok response \<and> response_json (body_text response) = Inr returned))"
  by (auto simp add: addMovie_fst split: sum.splits if_splits)

lemma sample_movie_id: "movie_id sample_movie = 7"
  by (simp add: sample_movie_def)

theorem addMovie_outcome_witness:
  "fst (addMovie (sample_server 201) sample_payload_text sample_response_json home_instance
          sample_lookup 1 ''/movies'' True True) = Inr sample_movie
   \<and> movie_id sample_movie = 7
   \<and> fst (addMovie (sample_server 400) sample_payload_text sample_response_json home_instance
          sample_lookup 1 ''/movies'' True True) = Inl (Error ''HTTP 400: path is invalid'')"
  using
    addMovie_outcome [where fetch = "sample_server 201" and JSON_stringify = sample_payload_text
          and response_json = sample_response_json and inst = home_instance
          and movie = sample_lookup and qualityProfile = 1 and rootFolder = "''/movies''"
          and monitoring = True and searchOnAdd = True
          and response = "\<lparr>status_code = 201, statusText = ''Created'', body_text = ''movie 7''\<rparr>"
          and created = sample_movie]
    addMovie_outcome [where fetch = "sample_server 400" and JSON_stringify = sample_payload_text
          and response_json = sample_response_json and inst = home_instance
          and movie = sample_lookup and qualityProfile = 1 and rootFolder = "''/movies''"
          and monitoring = True and searchOnAdd = True
          and response = "\<lparr>status_code = 400, statusText = ''Bad Request'', body_text = ''path is invalid''\<rparr>"]
  by (simp add: sample_server_def sample_response_json_def ok_def show_int_def
        sample_movie_id)

text \<open>
  C8. \<^verbatim>\<open>testConnection\<close> never throws: it returns a boolean for every instance and every
  behaviour of \<^verbatim>\<open>fetch\<close>. The boolean is true exactly when the request to
  \<^verbatim>\<open>/api/v3/system/status\<close> is answered with a status from 200 to 299; it is false on
  every other status and when \<^verbatim>\<open>fetch\<close> fails.
\<close>

theorem testConnection_never_raises:
  "(\<exists>b. testConnection fetch inst = Inr b)
   \<and> (testConnection fetch inst = Inr True \<longleftrightarrow>
        (\<exists>response. fetch (testConnection_request inst) = Inr response
           \<and> 200 \<le> status_code response \<and> status_code response \<le> 299))
   \<and> (fetch (testConnection_request inst) = Inr response \<and> \<not> ok response \<longrightarrow>
        testConnection fetch inst = Inr False)
   \<and> (fetch (testConnection_request inst) = Inl e \<longrightarrow>
        testConnection fetch inst = Inr False)"
  by (auto simp add: testConnection_def ok_def split: sum.splits)

theorem testConnection_never_raises_witness:
  "testConnection (sample_server 201) home_instance = Inr True
   \<and> testConnection (sample_server 400) home_instance = Inr False
   \<and> testConnection (sample_server 0) home_instance = Inr False
   \<and> request_url (testConnection_request home_instance)
        = ''http://radarr.local:7878/api/v3/system/status''"
  using testConnection_never_raises [of "sample_server 201" home_instance]
    testConnection_never_raises [of "sample_server 400" home_instance
          "\<lparr>status_code = 400, statusText = ''Bad Request'', body_text = ''path is invalid''\<rparr>"]
    testConnection_never_raises [of "sample_server 0" home_instance _ "Error ''fetch failed''"]
  by (simp add: sample_server_def ok_def testConnection_request_def home_instance_def)

end
